theory Spec2Isabelle
  imports Complex_Main
begin

section \<open>The canonical type model\<close>

text \<open>
  The canonical request, response and chunk shapes the adapters of
  \<^verbatim>\<open>aisuite-js\<close> translate to and from.  An optional TypeScript field
  (\<^verbatim>\<open>field?: T\<close>) is an \<open>option\<close>: \<open>None\<close> is JavaScript's
  \<^verbatim>\<open>undefined\<close> (or \<^verbatim>\<open>null\<close> for \<^verbatim>\<open>content\<close> and
  \<^verbatim>\<open>finish_reason\<close>).  Field names carry a prefix per record, since
  several shapes share \<^verbatim>\<open>id\<close>, \<^verbatim>\<open>model\<close> and \<^verbatim>\<open>choices\<close>.
\<close>

type_synonym jsnum = rat

record tool_call =
  tc_id :: string
  tc_type :: string
  tc_function_name :: string
  tc_function_arguments :: string

record tool_definition =
  td_type :: string
  td_function_name :: string
  td_function_parameters :: string

record chat_message =
  msg_role :: string
  msg_content :: "string option"
  msg_name :: "string option"
  msg_tool_calls :: "tool_call list option"
  msg_tool_call_id :: "string option"

datatype stop_spec = StopString string | StopList "string list"

record chat_request =
  req_model :: string
  req_messages :: "chat_message list"
  req_temperature :: "jsnum option"
  req_max_tokens :: "jsnum option"
  req_top_p :: "jsnum option"
  req_frequency_penalty :: "jsnum option"
  req_presence_penalty :: "jsnum option"
  req_stop :: "stop_spec option"
  req_user :: "string option"
  req_stream :: "bool option"
  req_tools :: "tool_definition list option"
  req_tool_choice :: "string option"

text \<open>\<^verbatim>\<open>RequestOptions\<close>: only the presence of an abort signal matters to the wrappers.\<close>

record request_options =
  opt_signal :: bool

record usage =
  prompt_tokens :: int
  completion_tokens :: int
  total_tokens :: int

record choice =
  ch_index :: int
  ch_message :: chat_message
  ch_finish_reason :: "string option"

record chat_response =
  resp_id :: string
  resp_object :: string
  resp_created :: int
  resp_model :: string
  resp_choices :: "choice list"
  resp_usage :: usage

record delta =
  d_role :: "string option"
  d_content :: "string option"
  d_tool_calls :: "tool_call list option"

record chunk_choice =
  cc_index :: int
  cc_delta :: delta
  cc_finish_reason :: "string option"

record chat_chunk =
  chunk_id :: string
  chunk_object :: string
  chunk_created :: int
  chunk_model :: string
  chunk_choices :: "chunk_choice list"

section \<open>Vendor-native shapes\<close>

text \<open>
  The shapes of the vendor SDKs as the adapters read and build them.  A native response
  is a JavaScript object at run time: \<^verbatim>\<open>usage\<close> may be missing whatever the
  SDK's type says, so it is an \<open>option\<close> here, and \<^verbatim>\<open>choices\<close> may be empty.
\<close>

record mistral_message =
  mm_role :: string
  mm_content :: "string option"
  mm_tool_calls :: "tool_call list option"

record mistral_request =
  mq_model :: string
  mq_messages :: "mistral_message list"
  mq_tools :: "tool_definition list option"
  mq_temperature :: "jsnum option"
  mq_max_tokens :: "jsnum option"
  mq_top_p :: "jsnum option"
  mq_stream :: "bool option"

record mistral_response =
  mr_id :: string
  mr_object :: string
  mr_created :: int
  mr_model :: string
  mr_choices :: "choice list"
  mr_usage :: "usage option"

record mistral_event =
  me_id :: string
  me_model :: string
  me_choices :: "chunk_choice list"

record groq_request =
  gq_model :: string
  gq_messages :: "chat_message list"
  gq_temperature :: "jsnum option"
  gq_max_tokens :: "jsnum option"
  gq_stream :: "bool option"
  gq_tools :: "tool_definition list option"
  gq_tool_choice :: "string option"

record groq_response =
  gr_id :: string
  gr_object :: string
  gr_created :: int
  gr_model :: string
  gr_choices :: "choice list"
  gr_usage :: "usage option"

record groq_event =
  ge_id :: string
  ge_model :: string
  ge_choices :: "chunk_choice list"

section \<open>JavaScript run-time failures inside an adapter\<close>

text \<open>
  Reading a property of \<^verbatim>\<open>undefined\<close> throws a \<^verbatim>\<open>TypeError\<close>.  An adapter
  returns \<open>Inl\<close> of the error's message where the JavaScript throws, \<open>Inr\<close> of its
  result otherwise.  The message text is the engine's (V8's wording is used).
\<close>

definition cannot_read_property :: "string \<Rightarrow> string" where
  "cannot_read_property p =
     ''Cannot read properties of undefined (reading '' @ [CHR 0x27] @ p @ [CHR 0x27] @ '')''"

section \<open>Mistral adapters\<close>

definition mistral_adaptMessage :: "chat_message \<Rightarrow> mistral_message" where
  "mistral_adaptMessage message =
     \<lparr> mm_role = msg_role message,
       mm_content = msg_content message,
       mm_tool_calls = msg_tool_calls message \<rparr>"

definition mistral_adaptRequest :: "chat_request \<Rightarrow> mistral_request" where
  "mistral_adaptRequest request =
     (let tools = (case req_tools request of
                     None \<Rightarrow> None
                   | Some ts \<Rightarrow> if length ts > 0 then Some ts else None)
      in \<lparr> mq_model = req_model request,
           mq_messages = map mistral_adaptMessage (req_messages request),
           mq_tools = tools,
           mq_temperature = req_temperature request,
           mq_max_tokens = req_max_tokens request,
           mq_top_p = req_top_p request,
           mq_stream = req_stream request \<rparr>)"

text \<open>
  \<^verbatim>\<open>adaptResponse\<close> of the Mistral adapter.  \<open>now\<close> is the value of
  \<^verbatim>\<open>Date.now()\<close> (milliseconds).  The object literal is evaluated field by field:
  \<^verbatim>\<open>response.choices[0].message\<close> throws when \<^verbatim>\<open>choices\<close> is empty, and
  \<^verbatim>\<open>response.usage.prompt_tokens\<close> throws when \<^verbatim>\<open>usage\<close> is missing.
\<close>

definition mistral_adaptResponse :: "int \<Rightarrow> mistral_response \<Rightarrow> string + chat_response" where
  "mistral_adaptResponse now response =
     (case mr_choices response of
        [] \<Rightarrow> Inl (cannot_read_property ''message'')
      | c0 # _ \<Rightarrow>
          (case mr_usage response of
             None \<Rightarrow> Inl (cannot_read_property ''prompt_tokens'')
           | Some u \<Rightarrow>
               Inr \<lparr> resp_id = mr_id response,
                     resp_object = ''chat.completion'',
                     resp_created = now div 1000,
                     resp_model = mr_model response,
                     resp_choices =
                       [\<lparr> ch_index = 0,
                          ch_message =
                            \<lparr> msg_role = ''assistant'',
                              msg_content = msg_content (ch_message c0),
                              msg_name = None,
                              msg_tool_calls = None,
                              msg_tool_call_id = None \<rparr>,
                          ch_finish_reason = ch_finish_reason c0 \<rparr>],
                     resp_usage =
                       \<lparr> prompt_tokens = prompt_tokens u,
                         completion_tokens = completion_tokens u,
                         total_tokens = total_tokens u \<rparr> \<rparr>))"

text \<open>
  \<^verbatim>\<open>adaptStreamResponse\<close> of the Mistral adapter:
  \<^verbatim>\<open>response.choices[0].delta\<close> throws when the event has no choice.
\<close>

definition mistral_adaptStreamResponse ::
  "int \<Rightarrow> mistral_event \<Rightarrow> string \<Rightarrow> string + chat_chunk" where
  "mistral_adaptStreamResponse now response streamId =
     (case me_choices response of
        [] \<Rightarrow> Inl (cannot_read_property ''delta'')
      | c0 # _ \<Rightarrow>
          Inr \<lparr> chunk_id = streamId,
                chunk_object = ''chat.completion.chunk'',
                chunk_created = now div 1000,
                chunk_model = me_model response,
                chunk_choices =
                  [\<lparr> cc_index = 0,
                     cc_delta =
                       \<lparr> d_role = Some ''assistant'',
                         d_content = d_content (cc_delta c0),
                         d_tool_calls = d_tool_calls (cc_delta c0) \<rparr>,
                     cc_finish_reason = cc_finish_reason c0 \<rparr>] \<rparr>)"

section \<open>Groq adapters\<close>

text \<open>
  JavaScript's \<^verbatim>\<open>s.replace(pattern, replacement)\<close> with a string pattern replaces the
  first occurrence of the pattern, wherever it stands, and leaves \<open>s\<close> alone when
  there is none.
\<close>

fun replace_first :: "string \<Rightarrow> string \<Rightarrow> string \<Rightarrow> string" where
  "replace_first pat rep [] = (if pat = [] then rep else [])"
| "replace_first pat rep (c # cs) =
     (if take (length pat) (c # cs) = pat then rep @ drop (length pat) (c # cs)
      else c # replace_first pat rep cs)"

definition groq_adaptRequest :: "chat_request \<Rightarrow> groq_request" where
  "groq_adaptRequest request =
     \<lparr> gq_model = replace_first ''groq:'' '''' (req_model request),
       gq_messages = req_messages request,
       gq_temperature = req_temperature request,
       gq_max_tokens = req_max_tokens request,
       gq_stream = req_stream request,
       gq_tools = req_tools request,
       gq_tool_choice = req_tool_choice request \<rparr>"

definition zero_usage :: usage where
  "zero_usage = \<lparr> prompt_tokens = 0, completion_tokens = 0, total_tokens = 0 \<rparr>"

definition groq_adaptResponse :: "groq_response \<Rightarrow> chat_response" where
  "groq_adaptResponse response =
     \<lparr> resp_id = gr_id response,
       resp_object = gr_object response,
       resp_created = gr_created response,
       resp_model = ''groq:'' @ gr_model response,
       resp_choices =
         map (\<lambda>c. \<lparr> ch_index = ch_index c,
                     ch_message = ch_message c,
                     ch_finish_reason = ch_finish_reason c \<rparr>) (gr_choices response),
       resp_usage = (case gr_usage response of Some u \<Rightarrow> u | None \<Rightarrow> zero_usage) \<rparr>"

definition groq_adaptStreamResponse :: "int \<Rightarrow> groq_event \<Rightarrow> string \<Rightarrow> chat_chunk" where
  "groq_adaptStreamResponse now chunk streamId =
     \<lparr> chunk_id = streamId,
       chunk_object = ''chat.completion.chunk'',
       chunk_created = now,
       chunk_model = ''groq:'' @ ge_model chunk,
       chunk_choices =
         map (\<lambda>c. \<lparr> cc_index = cc_index c,
                     cc_delta = cc_delta c,
                     cc_finish_reason = cc_finish_reason c \<rparr>) (ge_choices chunk) \<rparr>"

section \<open>Thrown values and error objects\<close>

text \<open>
  A JavaScript \<^verbatim>\<open>throw\<close> carries any value.  Error objects live in a heap and are
  thrown by reference, so that "the same object" is "the same reference"; an
  allocation appends to the heap, so the new reference is the heap's length.

  Modelled from the spec: the class \<^verbatim>\<open>AISuiteError\<close> (core/errors, not among the
  source files) is an \<^verbatim>\<open>Error\<close> tagged with a vendor name and a machine-readable
  kind code, built as \<^verbatim>\<open>new AISuiteError(message, provider, code)\<close>.
\<close>

datatype heap_obj =
    ErrorObject string
  | AISuiteErrorObject string string string
  | OtherObject

datatype thrown = Ref nat | Primitive string

definition deref :: "heap_obj list \<Rightarrow> thrown \<Rightarrow> heap_obj option" where
  "deref h t =
     (case t of
        Ref r \<Rightarrow> if r < length h then Some (h ! r) else None
      | Primitive _ \<Rightarrow> None)"

definition instanceof_AISuiteError :: "heap_obj list \<Rightarrow> thrown \<Rightarrow> bool" where
  "instanceof_AISuiteError h t =
     (case deref h t of Some (AISuiteErrorObject _ _ _) \<Rightarrow> True | _ \<Rightarrow> False)"

definition instanceof_Error :: "heap_obj list \<Rightarrow> thrown \<Rightarrow> bool" where
  "instanceof_Error h t =
     (case deref h t of
        Some (ErrorObject _) \<Rightarrow> True
      | Some (AISuiteErrorObject _ _ _) \<Rightarrow> True
      | _ \<Rightarrow> False)"

definition error_message :: "heap_obj list \<Rightarrow> thrown \<Rightarrow> string" where
  "error_message h t =
     (case deref h t of
        Some (ErrorObject m) \<Rightarrow> m
      | Some (AISuiteErrorObject m _ _) \<Rightarrow> m
      | _ \<Rightarrow> [])"

section \<open>The world a provider wrapper acts on\<close>

text \<open>
  What a wrapper reads and changes besides its arguments: the heap of error objects,
  the log of calls the vendor SDK received (method name and native request, in order),
  and the number of \<^verbatim>\<open>Date.now()\<close> reads, \<^verbatim>\<open>generateId()\<close> calls and abort
  listeners registered so far.
\<close>

record 'q world =
  w_heap :: "heap_obj list"
  w_sdk_calls :: "(string \<times> 'q) list"
  w_clock_reads :: nat
  w_id_calls :: nat
  w_abort_listeners :: nat

definition new_AISuiteError ::
  "string \<Rightarrow> string \<Rightarrow> string \<Rightarrow> 'q world \<Rightarrow> thrown \<times> 'q world" where
  "new_AISuiteError message provider code w =
     (Ref (length (w_heap w)),
      w\<lparr>w_heap := w_heap w @ [AISuiteErrorObject message provider code]\<rparr>)"

definition new_TypeError :: "string \<Rightarrow> 'q world \<Rightarrow> thrown \<times> 'q world" where
  "new_TypeError message w =
     (Ref (length (w_heap w)), w\<lparr>w_heap := w_heap w @ [ErrorObject message]\<rparr>)"

text \<open>\<open>clock n\<close> is what the \<open>n\<close>-th read of \<^verbatim>\<open>Date.now()\<close> returns.\<close>

definition Date_now :: "(nat \<Rightarrow> int) \<Rightarrow> 'q world \<Rightarrow> int \<times> 'q world" where
  "Date_now clock w = (clock (w_clock_reads w), w\<lparr>w_clock_reads := Suc (w_clock_reads w)\<rparr>)"

text \<open>
  Modelled from the spec: \<^verbatim>\<open>generateId\<close> (utils/streaming, not among the source
  files) draws a fresh id from a random source; \<open>ids n\<close> is the string the \<open>n\<close>-th
  call returns.
\<close>

definition generateId :: "(nat \<Rightarrow> string) \<Rightarrow> 'q world \<Rightarrow> string \<times> 'q world" where
  "generateId ids w = (ids (w_id_calls w), w\<lparr>w_id_calls := Suc (w_id_calls w)\<rparr>)"

text \<open>
  A call of the vendor SDK: the SDK is a parameter, a function from the native request
  and the heap to the outcome of the awaited promise (\<open>Inl\<close>: it rejected with that
  value) and the heap afterwards (the SDK may have allocated the error it rejects
  with).  The call is appended to the log.
\<close>

definition call_sdk ::
  "string \<Rightarrow> ('q \<Rightarrow> heap_obj list \<Rightarrow> (thrown + 'r) \<times> heap_obj list) \<Rightarrow> 'q \<Rightarrow> 'q world
     \<Rightarrow> (thrown + 'r) \<times> 'q world" where
  "call_sdk method_name f q w =
     (let (res, h) = f q (w_heap w)
      in (res, w\<lparr>w_heap := h, w_sdk_calls := w_sdk_calls w @ [(method_name, q)]\<rparr>))"

definition has_signal :: "request_options option \<Rightarrow> bool" where
  "has_signal options = (case options of None \<Rightarrow> False | Some opts \<Rightarrow> opt_signal opts)"

definition addEventListener_abort :: "'q world \<Rightarrow> 'q world" where
  "addEventListener_abort w = w\<lparr>w_abort_listeners := Suc (w_abort_listeners w)\<rparr>"

section \<open>MistralProvider\<close>

definition mistral_name :: string where
  "mistral_name = ''mistral''"

definition streaming_not_supported_message :: string where
  "streaming_not_supported_message =
     ''Streaming is not supported in non-streaming method. Set stream: false or use streamChatCompletion method.''"

text \<open>The body of the \<^verbatim>\<open>try\<close> block of \<^verbatim>\<open>MistralProvider.chatCompletion\<close>.\<close>

definition mistral_chatCompletion_try ::
  "(mistral_request \<Rightarrow> heap_obj list \<Rightarrow> (thrown + mistral_response) \<times> heap_obj list)
     \<Rightarrow> (nat \<Rightarrow> int) \<Rightarrow> chat_request \<Rightarrow> mistral_request world
     \<Rightarrow> (thrown + chat_response) \<times> mistral_request world" where
  "mistral_chatCompletion_try client_chat clock request w =
     (if req_stream request = Some True then
        (let (e, w1) = new_AISuiteError streaming_not_supported_message mistral_name
                         ''STREAMING_NOT_SUPPORTED'' w
         in (Inl e, w1))
      else
        (let mistralRequest = mistral_adaptRequest request;
             (completion, w1) = call_sdk ''chat'' client_chat mistralRequest w
         in case completion of
              Inl e \<Rightarrow> (Inl e, w1)
            | Inr c \<Rightarrow>
                (let (now, w2) = Date_now clock w1
                 in case mistral_adaptResponse now c of
                      Inl m \<Rightarrow> (let (e, w3) = new_TypeError m w2 in (Inl e, w3))
                    | Inr r \<Rightarrow> (Inr r, w2))))"

text \<open>The \<^verbatim>\<open>catch\<close> block of \<^verbatim>\<open>MistralProvider.chatCompletion\<close>.\<close>

definition mistral_chatCompletion_catch ::
  "thrown \<Rightarrow> mistral_request world \<Rightarrow> (thrown + chat_response) \<times> mistral_request world" where
  "mistral_chatCompletion_catch error w =
     (if instanceof_AISuiteError (w_heap w) error then (Inl error, w)
      else
        (let (e, w1) =
               new_AISuiteError
                 (''Mistral API error: '' @
                    (if instanceof_Error (w_heap w) error then error_message (w_heap w) error
                     else ''Unknown error''))
                 mistral_name ''API_ERROR'' w
         in (Inl e, w1)))"

definition mistral_chatCompletion ::
  "(mistral_request \<Rightarrow> heap_obj list \<Rightarrow> (thrown + mistral_response) \<times> heap_obj list)
     \<Rightarrow> (nat \<Rightarrow> int) \<Rightarrow> chat_request \<Rightarrow> request_options option \<Rightarrow> mistral_request world
     \<Rightarrow> (thrown + chat_response) \<times> mistral_request world" where
  "mistral_chatCompletion client_chat clock request options w =
     (case mistral_chatCompletion_try client_chat clock request w of
        (Inl error, w1) \<Rightarrow> mistral_chatCompletion_catch error w1
      | (Inr r, w1) \<Rightarrow> (Inr r, w1))"

section \<open>GroqProvider\<close>

text \<open>
  A native stream, as a consumer sees it: the events it delivers, in order, and then
  either its normal end (\<open>None\<close>) or the value it throws.  An error object the stream
  throws is taken to be in the heap the SDK call left.
\<close>

datatype 'ev native_stream = NativeStream (ns_events: "'ev list") (ns_failure: "thrown option")

text \<open>
  The Groq SDK has one method, \<^verbatim>\<open>chat.completions.create\<close>, for both operations; what
  its promise resolves with is a completion or a stream.
\<close>

datatype groq_result = GroqCompletion groq_response | GroqStream "groq_event native_stream"

definition groq_name :: string where
  "groq_name = ''groq''"

text \<open>
  The body of the \<^verbatim>\<open>try\<close> block of \<^verbatim>\<open>GroqProvider.chatCompletion\<close>.  Handed a
  stream object, \<^verbatim>\<open>adaptResponse\<close> reads \<^verbatim>\<open>response.choices.map\<close> of an object
  without \<^verbatim>\<open>choices\<close> and throws.
\<close>

definition groq_chatCompletion_try ::
  "(groq_request \<Rightarrow> heap_obj list \<Rightarrow> (thrown + groq_result) \<times> heap_obj list)
     \<Rightarrow> chat_request \<Rightarrow> groq_request world
     \<Rightarrow> (thrown + chat_response) \<times> groq_request world" where
  "groq_chatCompletion_try client_create request w =
     (if req_stream request = Some True then
        (let (e, w1) = new_AISuiteError streaming_not_supported_message groq_name
                         ''STREAMING_NOT_SUPPORTED'' w
         in (Inl e, w1))
      else
        (let groqRequest = groq_adaptRequest request;
             (completion, w1) = call_sdk ''chat.completions.create'' client_create groqRequest w
         in case completion of
              Inl e \<Rightarrow> (Inl e, w1)
            | Inr (GroqCompletion c) \<Rightarrow> (Inr (groq_adaptResponse c), w1)
            | Inr (GroqStream _) \<Rightarrow>
                (let (e, w2) = new_TypeError (cannot_read_property ''map'') w1 in (Inl e, w2))))"

definition groq_chatCompletion_catch ::
  "thrown \<Rightarrow> groq_request world \<Rightarrow> (thrown + chat_response) \<times> groq_request world" where
  "groq_chatCompletion_catch error w =
     (if instanceof_AISuiteError (w_heap w) error then (Inl error, w)
      else
        (let (e, w1) =
               new_AISuiteError
                 (''Groq API error: '' @
                    (if instanceof_Error (w_heap w) error then error_message (w_heap w) error
                     else ''Unknown error''))
                 groq_name ''API_ERROR'' w
         in (Inl e, w1)))"

definition groq_chatCompletion ::
  "(groq_request \<Rightarrow> heap_obj list \<Rightarrow> (thrown + groq_result) \<times> heap_obj list)
     \<Rightarrow> chat_request \<Rightarrow> request_options option \<Rightarrow> groq_request world
     \<Rightarrow> (thrown + chat_response) \<times> groq_request world" where
  "groq_chatCompletion client_create request options w =
     (case groq_chatCompletion_try client_create request w of
        (Inl error, w1) \<Rightarrow> groq_chatCompletion_catch error w1
      | (Inr r, w1) \<Rightarrow> (Inr r, w1))"

section \<open>Streaming: the generators\<close>

text \<open>
  \<^verbatim>\<open>async *streamChatCompletion\<close> is a generator: calling it runs nothing and returns
  a suspended generator; each \<^verbatim>\<open>next()\<close> of the consumer runs the body up to its
  next \<^verbatim>\<open>yield\<close>, its end or a throw.  A generator is its suspension point with what
  the body holds there; \<open>next\<close> is a function of the generator and the world.
\<close>

datatype 'ev generator =
    Suspended_Start chat_request "request_options option"
  | Suspended_Yield string "'ev list" "thrown option"
  | Completed

datatype step = Yielded chat_chunk | Returned | Threw thrown

definition mistral_streamChatCompletion ::
  "chat_request \<Rightarrow> request_options option \<Rightarrow> mistral_event generator" where
  "mistral_streamChatCompletion request options = Suspended_Start request options"

text \<open>The \<^verbatim>\<open>catch\<close> block of \<^verbatim>\<open>MistralProvider.streamChatCompletion\<close>.\<close>

definition mistral_stream_catch ::
  "thrown \<Rightarrow> mistral_request world \<Rightarrow> step \<times> mistral_event generator \<times> mistral_request world" where
  "mistral_stream_catch error w =
     (let (e, w1) =
            new_AISuiteError
              (''Mistral streaming error: '' @
                 (if instanceof_Error (w_heap w) error then error_message (w_heap w) error
                  else ''Unknown error''))
              mistral_name ''STREAMING_ERROR'' w
      in (Threw e, Completed, w1))"

text \<open>
  One turn of \<^verbatim>\<open>for await (const chunk of stream) yield adaptStreamResponse(chunk, streamId)\<close>,
  inside the \<^verbatim>\<open>try\<close>: the native stream delivers an event, ends or throws.
\<close>

definition mistral_stream_loop ::
  "(nat \<Rightarrow> int) \<Rightarrow> string \<Rightarrow> mistral_event list \<Rightarrow> thrown option \<Rightarrow> mistral_request world
     \<Rightarrow> step \<times> mistral_event generator \<times> mistral_request world" where
  "mistral_stream_loop clock streamId evs failure w =
     (case evs of
        [] \<Rightarrow>
          (case failure of
             None \<Rightarrow> (Returned, Completed, w)
           | Some error \<Rightarrow> mistral_stream_catch error w)
      | chunk # rest \<Rightarrow>
          (let (now, w1) = Date_now clock w
           in case mistral_adaptStreamResponse now chunk streamId of
                Inl m \<Rightarrow> (let (e, w2) = new_TypeError m w1 in mistral_stream_catch e w2)
              | Inr c \<Rightarrow> (Yielded c, Suspended_Yield streamId rest failure, w1)))"

definition mistral_stream_next ::
  "(mistral_request \<Rightarrow> heap_obj list
      \<Rightarrow> (thrown + mistral_event native_stream) \<times> heap_obj list)
     \<Rightarrow> (nat \<Rightarrow> int) \<Rightarrow> (nat \<Rightarrow> string) \<Rightarrow> mistral_event generator \<Rightarrow> mistral_request world
     \<Rightarrow> step \<times> mistral_event generator \<times> mistral_request world" where
  "mistral_stream_next client_chatStream clock ids g w =
     (case g of
        Suspended_Start request options \<Rightarrow>
          (let mistralRequest = mistral_adaptRequest request;
               (res, w1) = call_sdk ''chatStream'' client_chatStream mistralRequest w
           in case res of
                Inl error \<Rightarrow> mistral_stream_catch error w1
              | Inr stream \<Rightarrow>
                  (let (streamId, w2) = generateId ids w1;
                       w3 = (if has_signal options then addEventListener_abort w2 else w2)
                   in mistral_stream_loop clock streamId (ns_events stream) (ns_failure stream) w3))
      | Suspended_Yield streamId evs failure \<Rightarrow> mistral_stream_loop clock streamId evs failure w
      | Completed \<Rightarrow> (Returned, Completed, w))"

definition groq_streamChatCompletion ::
  "chat_request \<Rightarrow> request_options option \<Rightarrow> groq_event generator" where
  "groq_streamChatCompletion request options = Suspended_Start request options"

definition groq_stream_catch ::
  "thrown \<Rightarrow> groq_request world \<Rightarrow> step \<times> groq_event generator \<times> groq_request world" where
  "groq_stream_catch error w =
     (let (e, w1) =
            new_AISuiteError
              (''Groq streaming error: '' @
                 (if instanceof_Error (w_heap w) error then error_message (w_heap w) error
                  else ''Unknown error''))
              groq_name ''STREAMING_ERROR'' w
      in (Threw e, Completed, w1))"

definition groq_stream_loop ::
  "(nat \<Rightarrow> int) \<Rightarrow> string \<Rightarrow> groq_event list \<Rightarrow> thrown option \<Rightarrow> groq_request world
     \<Rightarrow> step \<times> groq_event generator \<times> groq_request world" where
  "groq_stream_loop clock streamId evs failure w =
     (case evs of
        [] \<Rightarrow>
          (case failure of
             None \<Rightarrow> (Returned, Completed, w)
           | Some error \<Rightarrow> groq_stream_catch error w)
      | chunk # rest \<Rightarrow>
          (let (now, w1) = Date_now clock w
           in (Yielded (groq_adaptStreamResponse now chunk streamId),
               Suspended_Yield streamId rest failure, w1)))"

text \<open>
  When \<^verbatim>\<open>create\<close> resolved with a completion, \<^verbatim>\<open>for await\<close> over it throws a
  \<^verbatim>\<open>TypeError\<close> (the value is not async iterable), after the id was generated.
\<close>

definition groq_stream_next ::
  "(groq_request \<Rightarrow> heap_obj list \<Rightarrow> (thrown + groq_result) \<times> heap_obj list)
     \<Rightarrow> (nat \<Rightarrow> int) \<Rightarrow> (nat \<Rightarrow> string) \<Rightarrow> groq_event generator \<Rightarrow> groq_request world
     \<Rightarrow> step \<times> groq_event generator \<times> groq_request world" where
  "groq_stream_next client_create clock ids g w =
     (case g of
        Suspended_Start request options \<Rightarrow>
          (let groqRequest = groq_adaptRequest request;
               (res, w1) = call_sdk ''chat.completions.create'' client_create groqRequest w
           in case res of
                Inl error \<Rightarrow> groq_stream_catch error w1
              | Inr stream \<Rightarrow>
                  (let (streamId, w2) = generateId ids w1;
                       w3 = (if has_signal options then addEventListener_abort w2 else w2)
                   in case stream of
                        GroqCompletion _ \<Rightarrow>
                          (let (e, w4) = new_TypeError ''stream is not async iterable'' w3
                           in groq_stream_catch e w4)
                      | GroqStream s \<Rightarrow>
                          groq_stream_loop clock streamId (ns_events s) (ns_failure s) w3))
      | Suspended_Yield streamId evs failure \<Rightarrow> groq_stream_loop clock streamId evs failure w
      | Completed \<Rightarrow> (Returned, Completed, w))"

text \<open>
  A consumer (\<^verbatim>\<open>for await (const chunk of stream)\<close>) that pulls at most \<open>n\<close> times
  and stops at the generator's end or throw: the steps it saw, in order, and the
  generator and world it leaves.
\<close>

fun consume ::
  "('g \<Rightarrow> 'w \<Rightarrow> step \<times> 'g \<times> 'w) \<Rightarrow> nat \<Rightarrow> 'g \<Rightarrow> 'w \<Rightarrow> step list \<times> 'g \<times> 'w" where
  "consume nxt 0 g w = ([], g, w)"
| "consume nxt (Suc n) g w =
     (case nxt g w of
        (Yielded c, g1, w1) \<Rightarrow>
          (case consume nxt n g1 w1 of (rest, g2, w2) \<Rightarrow> (Yielded c # rest, g2, w2))
      | (r, g1, w1) \<Rightarrow> ([r], g1, w1))"


text \<open>The \<^verbatim>\<open>delta.content\<close> of every choice of a chunk or native event, in order.\<close>

definition delta_contents :: "chunk_choice list \<Rightarrow> string option list" where
  "delta_contents cs = map (\<lambda>c. d_content (cc_delta c)) cs"

text \<open>Concatenation of contents; a missing content contributes nothing.\<close>

definition concat_content :: "string option list \<Rightarrow> string" where
  "concat_content cs = concat (map (\<lambda>c. case c of None \<Rightarrow> [] | Some s \<Rightarrow> s) cs)"

text \<open>What a rejected call threw, as the object it refers to in the heap it left.\<close>

definition rejected_object :: "(thrown + 'a) \<times> 'q world \<Rightarrow> heap_obj option" where
  "rejected_object out =
     (case fst out of Inl e \<Rightarrow> deref (w_heap (snd out)) e | Inr _ \<Rightarrow> None)"

section \<open>Client dispatch\<close>

text \<open>
  Modelled from the spec: the Client (src/client.ts) is not among the source files;
  only its test is.  The definitions of this section follow the spec's description of
  \<^verbatim>\<open>chat.completions.create\<close>: split \<^verbatim>\<open>request.model\<close> on the first separator only
  into the vendor key and the vendor model id; look the key up in the registry and fail
  with \<^verbatim>\<open>ProviderNotConfigured\<close> naming the vendor when it is absent; rewrite the
  request's model to the stripped id; return the provider's streaming sequence when
  \<^verbatim>\<open>request.stream\<close> is true, else await and return its single response.

  The registry is an association list in configuration order.  A provider is the pair
  of its two operations over a state \<open>'s\<close> of its own; the dispatch log records which
  provider received which call.  For a model string without a separator the spec fixes
  no behaviour (it states the separator as an invariant of the request):
  \<open>create\<close> is \<open>None\<close> there.
\<close>

fun split_first :: "char \<Rightarrow> string \<Rightarrow> (string \<times> string) option" where
  "split_first sep [] = None"
| "split_first sep (c # cs) =
     (if c = sep then Some ([], cs)
      else (case split_first sep cs of
              None \<Rightarrow> None
            | Some (before, after) \<Rightarrow> Some (c # before, after)))"

datatype dispatched =
    ChatCompletionCall chat_request "request_options option"
  | StreamChatCompletionCall chat_request "request_options option"

record ('s, 'g) provider =
  p_chatCompletion ::
    "chat_request \<Rightarrow> request_options option \<Rightarrow> 's \<Rightarrow> (thrown + chat_response) \<times> 's"
  p_streamChatCompletion :: "chat_request \<Rightarrow> request_options option \<Rightarrow> 'g"

datatype client_error = ProviderNotConfigured string | ProviderRejected thrown

datatype 'g created = Completion chat_response | ChunkStream 'g

definition create ::
  "(string \<times> ('s, 'g) provider) list \<Rightarrow> chat_request \<Rightarrow> request_options option
     \<Rightarrow> (string \<times> dispatched) list \<times> 's
     \<Rightarrow> ((client_error + 'g created) \<times> (string \<times> dispatched) list \<times> 's) option" where
  "create providers request options st =
     (case split_first (CHR '':'') (req_model request) of
        None \<Rightarrow> None
      | Some (vendorKey, vendorModelId) \<Rightarrow>
          (case map_of providers vendorKey of
             None \<Rightarrow> Some (Inl (ProviderNotConfigured vendorKey), st)
           | Some p \<Rightarrow>
               (let forwarded = request\<lparr>req_model := vendorModelId\<rparr>;
                    (calls, s) = st
                in if req_stream request = Some True then
                     Some (Inr (ChunkStream (p_streamChatCompletion p forwarded options)),
                           calls @ [(vendorKey, StreamChatCompletionCall forwarded options)], s)
                   else
                     (case p_chatCompletion p forwarded options s of
                        (Inl e, s1) \<Rightarrow>
                          Some (Inl (ProviderRejected e),
                                calls @ [(vendorKey, ChatCompletionCall forwarded options)], s1)
                      | (Inr r, s1) \<Rightarrow>
                          Some (Inr (Completion r),
                                calls @ [(vendorKey, ChatCompletionCall forwarded options)], s1)))))"

section \<open>Test doubles and example inputs\<close>

text \<open>
  The inputs the provider tests use: a one-message request, a world with a given heap
  and nothing logged, and vendor SDK doubles that resolve with a value, reject with a
  given value, or reject with an \<^verbatim>\<open>Error\<close> they create.
\<close>

definition user_hello :: chat_message where
  "user_hello = \<lparr> msg_role = ''user'', msg_content = Some ''Hello'', msg_name = None,
                   msg_tool_calls = None, msg_tool_call_id = None \<rparr>"

definition hello_request :: "string \<Rightarrow> bool option \<Rightarrow> chat_request" where
  "hello_request model_id stream =
     \<lparr> req_model = model_id, req_messages = [user_hello], req_temperature = None,
       req_max_tokens = None, req_top_p = None, req_frequency_penalty = None,
       req_presence_penalty = None, req_stop = None, req_user = None, req_stream = stream,
       req_tools = None, req_tool_choice = None \<rparr>"

definition world_with :: "heap_obj list \<Rightarrow> 'q world" where
  "world_with h = \<lparr> w_heap = h, w_sdk_calls = [], w_clock_reads = 0, w_id_calls = 0,
                     w_abort_listeners = 0 \<rparr>"

definition resolving :: "'r \<Rightarrow> 'q \<Rightarrow> heap_obj list \<Rightarrow> (thrown + 'r) \<times> heap_obj list" where
  "resolving r q h = (Inr r, h)"

definition rejecting :: "thrown \<Rightarrow> 'q \<Rightarrow> heap_obj list \<Rightarrow> (thrown + 'r) \<times> heap_obj list" where
  "rejecting t q h = (Inl t, h)"

definition rejecting_new_Error ::
  "string \<Rightarrow> 'q \<Rightarrow> heap_obj list \<Rightarrow> (thrown + 'r) \<times> heap_obj list" where
  "rejecting_new_Error m q h = (Inl (Ref (length h)), h @ [ErrorObject m])"

definition get_weather_call :: tool_call where
  "get_weather_call = \<lparr> tc_id = ''call-1'', tc_type = ''function'',
                         tc_function_name = ''get_weather'',
                         tc_function_arguments = ''{}'' \<rparr>"

definition assistant_message :: "string \<Rightarrow> tool_call list option \<Rightarrow> chat_message" where
  "assistant_message body calls =
     \<lparr> msg_role = ''assistant'', msg_content = Some body, msg_name = None,
       msg_tool_calls = calls, msg_tool_call_id = None \<rparr>"

text \<open>
  A native Mistral response with two choices, the first carrying a tool call; the same
  without \<^verbatim>\<open>usage\<close>; a native Groq response without \<^verbatim>\<open>usage\<close>.
\<close>

definition mistral_two_choice_response :: mistral_response where
  "mistral_two_choice_response =
     \<lparr> mr_id = ''chatcmpl-123'', mr_object = ''chat.completion'', mr_created = 1234567890,
       mr_model = ''mistral-large'',
       mr_choices =
         [\<lparr> ch_index = 0,
            ch_message = assistant_message ''Hello! How can I help you?'' (Some [get_weather_call]),
            ch_finish_reason = Some ''stop'' \<rparr>,
          \<lparr> ch_index = 1,
            ch_message = assistant_message ''A second answer'' None,
            ch_finish_reason = Some ''length'' \<rparr>],
       mr_usage = Some \<lparr> prompt_tokens = 10, completion_tokens = 20, total_tokens = 30 \<rparr> \<rparr>"


definition groq_response_without_usage :: groq_response where
  "groq_response_without_usage =
     \<lparr> gr_id = ''chatcmpl-123'', gr_object = ''chat.completion'', gr_created = 1234567890,
       gr_model = ''llama3-8b-8192'',
       gr_choices =
         [\<lparr> ch_index = 0,
            ch_message = assistant_message ''Hello! How can I help you?'' None,
            ch_finish_reason = Some ''stop'' \<rparr>],
       gr_usage = None \<rparr>"


text \<open>
  Two-event native streams as the provider tests build them (the events carry ids of
  their own), and a canonical error with a custom code.
\<close>

definition delta_choice :: "string option \<Rightarrow> string \<Rightarrow> string option \<Rightarrow> chunk_choice" where
  "delta_choice role body fin =
     \<lparr> cc_index = 0,
       cc_delta = \<lparr> d_role = role, d_content = Some body, d_tool_calls = None \<rparr>,
       cc_finish_reason = fin \<rparr>"

definition mistral_hello_events :: "mistral_event list" where
  "mistral_hello_events =
     [\<lparr> me_id = ''event-1'', me_model = ''mistral-large'',
        me_choices = [delta_choice (Some ''assistant'') ''Hello'' None] \<rparr>,
      \<lparr> me_id = ''event-2'', me_model = ''mistral-large'',
        me_choices = [delta_choice None ''! How can I help?'' (Some ''stop'')] \<rparr>]"

definition groq_hello_events :: "groq_event list" where
  "groq_hello_events =
     [\<lparr> ge_id = ''event-1'', ge_model = ''llama3-8b-8192'',
        ge_choices = [delta_choice (Some ''assistant'') ''Hello'' None] \<rparr>,
      \<lparr> ge_id = ''event-2'', ge_model = ''llama3-8b-8192'',
        ge_choices = [delta_choice None ''! How can I help?'' (Some ''stop'')] \<rparr>]"

definition custom_error :: heap_obj where
  "custom_error = AISuiteErrorObject ''Custom error'' ''mistral'' ''CUSTOM_ERROR''"





text \<open>
  A provider double for the dispatcher, as the Client test mocks one: its
  \<^verbatim>\<open>chatCompletion\<close> resolves with a response naming the model it was given, and its
  stream is the request it was given.
\<close>

definition mock_response :: "chat_request \<Rightarrow> chat_response" where
  "mock_response request =
     \<lparr> resp_id = ''test-id'', resp_object = ''chat.completion'', resp_created = 1234567890,
       resp_model = req_model request, resp_choices = [],
       resp_usage = \<lparr> prompt_tokens = 10, completion_tokens = 20, total_tokens = 30 \<rparr> \<rparr>"

definition mock_provider :: "(unit, chat_request) provider" where
  "mock_provider =
     \<lparr> p_chatCompletion = (\<lambda>request options s. (Inr (mock_response request), s)),
       p_streamChatCompletion = (\<lambda>request options. request) \<rparr>"

section \<open>Properties of the non-streaming wrappers\<close>

lemmas chat_defs =
  mistral_chatCompletion_def mistral_chatCompletion_try_def mistral_chatCompletion_catch_def
  groq_chatCompletion_def groq_chatCompletion_try_def groq_chatCompletion_catch_def
  new_AISuiteError_def new_TypeError_def call_sdk_def Date_now_def
  mistral_name_def groq_name_def

lemma deref_append_new [simp]: "deref (h @ [obj]) (Ref (length h)) = Some obj"
  by (simp add: deref_def)

text \<open>
  C1: for each provider wrapper of the sources (Mistral, Groq), \<^verbatim>\<open>chatCompletion\<close> on a
  request whose \<^verbatim>\<open>stream\<close> is true rejects with a newly created canonical error of
  kind \<^verbatim>\<open>STREAMING_NOT_SUPPORTED\<close> tagged with the provider's name, whatever the vendor
  SDK would do: the world afterwards differs from the one before only by that error
  object, so the log of SDK calls is unchanged and the SDK was not invoked.
\<close>

theorem chatCompletion_stream_true_rejected_before_vendor_call:
  assumes "req_stream request = Some True"
  shows "mistral_chatCompletion client_chat clock request options w =
           (Inl (Ref (length (w_heap w))),
            w\<lparr>w_heap := w_heap w @ [AISuiteErrorObject streaming_not_supported_message
                                       ''mistral'' ''STREAMING_NOT_SUPPORTED'']\<rparr>)
       \<and> w_sdk_calls (snd (mistral_chatCompletion client_chat clock request options w)) =
           w_sdk_calls w
       \<and> groq_chatCompletion client_create request options v =
           (Inl (Ref (length (w_heap v))),
            v\<lparr>w_heap := w_heap v @ [AISuiteErrorObject streaming_not_supported_message
                                       ''groq'' ''STREAMING_NOT_SUPPORTED'']\<rparr>)
       \<and> w_sdk_calls (snd (groq_chatCompletion client_create request options v)) =
           w_sdk_calls v"
  using assms by (simp add: chat_defs instanceof_AISuiteError_def)

theorem chatCompletion_stream_true_rejected_witness:
  "req_stream (hello_request ''mistral-large'' (Some True)) = Some True
   \<and> mistral_chatCompletion (rejecting (Primitive ''never called'')) (\<lambda>_. 0)
        (hello_request ''mistral-large'' (Some True)) None (world_with []) =
      (Inl (Ref 0),
       world_with [AISuiteErrorObject streaming_not_supported_message ''mistral''
                     ''STREAMING_NOT_SUPPORTED''])
   \<and> groq_chatCompletion (rejecting (Primitive ''never called''))
        (hello_request ''mistral-large'' (Some True)) None (world_with []) =
      (Inl (Ref 0),
       world_with [AISuiteErrorObject streaming_not_supported_message ''groq''
                     ''STREAMING_NOT_SUPPORTED''])"
  using chatCompletion_stream_true_rejected_before_vendor_call
      [where request = "hello_request ''mistral-large'' (Some True)"
      and client_chat = "rejecting (Primitive ''never called'')" and clock = "\<lambda>_. 0"
      and options = None and w = "world_with []"
      and client_create = "rejecting (Primitive ''never called'')" and v = "world_with []"]
  by (simp add: hello_request_def world_with_def)

text \<open>
  C6: for each provider wrapper of the sources, when the request is not a streaming one
  and the vendor SDK call rejects with \<open>error\<close>, leaving the heap \<open>h\<close>: if \<open>error\<close> is
  a plain \<^verbatim>\<open>Error\<close> with message \<open>m\<close>, \<^verbatim>\<open>chatCompletion\<close> rejects with a canonical
  error of kind \<^verbatim>\<open>API_ERROR\<close> whose message is the vendor's prefix
  (\<^verbatim>\<open>Mistral API error: \<close>, \<^verbatim>\<open>Groq API error: \<close>) followed by \<open>m\<close>; if \<open>error\<close>
  is not an \<^verbatim>\<open>Error\<close> at all (a bare string, say), the message is the prefix followed
  by \<^verbatim>\<open>Unknown error\<close>.
\<close>

theorem chatCompletion_wraps_vendor_failure_as_API_ERROR:
  assumes "req_stream request \<noteq> Some True"
  shows "(client_chat (mistral_adaptRequest request) (w_heap w) = (Inl error, h) \<longrightarrow>
            (deref h error = Some (ErrorObject m) \<longrightarrow>
               rejected_object (mistral_chatCompletion client_chat clock request options w) =
                 Some (AISuiteErrorObject (''Mistral API error: '' @ m) ''mistral'' ''API_ERROR'')) \<and>
            (\<not> instanceof_Error h error \<longrightarrow>
               rejected_object (mistral_chatCompletion client_chat clock request options w) =
                 Some (AISuiteErrorObject ''Mistral API error: Unknown error'' ''mistral''
                         ''API_ERROR'')))
       \<and> (client_create (groq_adaptRequest request) (w_heap v) = (Inl error', h') \<longrightarrow>
            (deref h' error' = Some (ErrorObject m') \<longrightarrow>
               rejected_object (groq_chatCompletion client_create request options v) =
                 Some (AISuiteErrorObject (''Groq API error: '' @ m') ''groq'' ''API_ERROR'')) \<and>
            (\<not> instanceof_Error h' error' \<longrightarrow>
               rejected_object (groq_chatCompletion client_create request options v) =
                 Some (AISuiteErrorObject ''Groq API error: Unknown error'' ''groq''
                         ''API_ERROR'')))"
  using assms
  by (auto simp: chat_defs rejected_object_def instanceof_AISuiteError_def instanceof_Error_def
      error_message_def split: option.splits heap_obj.splits)

theorem chatCompletion_wraps_vendor_failure_witness:
  "rejected_object (mistral_chatCompletion (rejecting_new_Error ''API rate limit exceeded'')
       (\<lambda>_. 0) (hello_request ''mistral-large'' None) None (world_with [])) =
     Some (AISuiteErrorObject ''Mistral API error: API rate limit exceeded'' ''mistral''
             ''API_ERROR'')
   \<and> rejected_object (mistral_chatCompletion (rejecting (Primitive ''Unknown error string''))
       (\<lambda>_. 0) (hello_request ''mistral-large'' None) None (world_with [])) =
     Some (AISuiteErrorObject ''Mistral API error: Unknown error'' ''mistral'' ''API_ERROR'')
   \<and> rejected_object (groq_chatCompletion (rejecting_new_Error ''API rate limit exceeded'')
       (hello_request ''llama3-8b-8192'' None) None (world_with [])) =
     Some (AISuiteErrorObject ''Groq API error: API rate limit exceeded'' ''groq'' ''API_ERROR'')
   \<and> rejected_object (groq_chatCompletion (rejecting (Primitive ''Unknown error string''))
       (hello_request ''llama3-8b-8192'' None) None (world_with [])) =
     Some (AISuiteErrorObject ''Groq API error: Unknown error'' ''groq'' ''API_ERROR'')"
proof -
  have m1: "rejected_object (mistral_chatCompletion
       (rejecting_new_Error ''API rate limit exceeded'')
       (\<lambda>_. 0) (hello_request ''mistral-large'' None) None (world_with [])) =
     Some (AISuiteErrorObject ''Mistral API error: API rate limit exceeded'' ''mistral''
             ''API_ERROR'')"
    using chatCompletion_wraps_vendor_failure_as_API_ERROR
        [where request = "hello_request ''mistral-large'' None"
        and client_chat = "rejecting_new_Error ''API rate limit exceeded''"
        and w = "world_with []" and error = "Ref 0"
        and h = "[ErrorObject ''API rate limit exceeded'']" and m = "''API rate limit exceeded''"]
    by (simp add: hello_request_def world_with_def rejecting_new_Error_def deref_def)
  have m2: "rejected_object (mistral_chatCompletion
       (rejecting (Primitive ''Unknown error string''))
       (\<lambda>_. 0) (hello_request ''mistral-large'' None) None (world_with [])) =
     Some (AISuiteErrorObject ''Mistral API error: Unknown error'' ''mistral'' ''API_ERROR'')"
    using chatCompletion_wraps_vendor_failure_as_API_ERROR
        [where request = "hello_request ''mistral-large'' None"
        and client_chat = "rejecting (Primitive ''Unknown error string'')"
        and w = "world_with []" and error = "Primitive ''Unknown error string''" and h = "[]"]
    by (simp add: hello_request_def world_with_def rejecting_def deref_def instanceof_Error_def)
  have g1: "rejected_object (groq_chatCompletion
       (rejecting_new_Error ''API rate limit exceeded'')
       (hello_request ''llama3-8b-8192'' None) None (world_with [])) =
     Some (AISuiteErrorObject ''Groq API error: API rate limit exceeded'' ''groq'' ''API_ERROR'')"
    using chatCompletion_wraps_vendor_failure_as_API_ERROR
        [where request = "hello_request ''llama3-8b-8192'' None"
        and client_create = "rejecting_new_Error ''API rate limit exceeded''"
        and v = "world_with []" and error' = "Ref 0"
        and h' = "[ErrorObject ''API rate limit exceeded'']"
        and m' = "''API rate limit exceeded''"]
    by (simp add: hello_request_def world_with_def rejecting_new_Error_def deref_def)
  have g2: "rejected_object (groq_chatCompletion
       (rejecting (Primitive ''Unknown error string''))
       (hello_request ''llama3-8b-8192'' None) None (world_with [])) =
     Some (AISuiteErrorObject ''Groq API error: Unknown error'' ''groq'' ''API_ERROR'')"
    using chatCompletion_wraps_vendor_failure_as_API_ERROR
        [where request = "hello_request ''llama3-8b-8192'' None"
        and client_create = "rejecting (Primitive ''Unknown error string'')"
        and v = "world_with []" and error' = "Primitive ''Unknown error string''" and h' = "[]"]
    by (simp add: hello_request_def world_with_def rejecting_def deref_def instanceof_Error_def)
  from m1 m2 g1 g2 show ?thesis by simp
qed

section \<open>Properties of the response adapters\<close>

text \<open>
  C10: whenever Mistral's \<^verbatim>\<open>adaptResponse\<close> returns (it does as soon as the native
  response has a choice and a usage), the canonical response has exactly one choice,
  with index 0, built from the first native choice alone: its message holds the role
  \<^verbatim>\<open>assistant\<close> and the first choice's content and nothing else (no tool calls), and
  its finish reason is the first choice's.  The other native choices and the native
  message's tool calls do not occur in the result.
\<close>

theorem mistral_adaptResponse_keeps_first_choice_only:
  "(mr_choices r \<noteq> [] \<and> mr_usage r \<noteq> None \<longrightarrow> (\<exists>out. mistral_adaptResponse now r = Inr out)) \<and>
   (\<forall>out. mistral_adaptResponse now r = Inr out \<longrightarrow>
      (\<exists>c0 cs. mr_choices r = c0 # cs \<and>
         resp_choices out =
           [\<lparr> ch_index = 0,
              ch_message = \<lparr> msg_role = ''assistant'', msg_content = msg_content (ch_message c0),
                             msg_name = None, msg_tool_calls = None, msg_tool_call_id = None \<rparr>,
              ch_finish_reason = ch_finish_reason c0 \<rparr>]))"
  by (auto simp: mistral_adaptResponse_def split: list.splits option.splits)

theorem mistral_adaptResponse_keeps_first_choice_witness:
  "length (mr_choices mistral_two_choice_response) = 2
   \<and> msg_tool_calls (ch_message (hd (mr_choices mistral_two_choice_response))) =
       Some [get_weather_call]
   \<and> map_sum id resp_choices (mistral_adaptResponse 1234567890123 mistral_two_choice_response) =
       Inr [\<lparr> ch_index = 0,
              ch_message = \<lparr> msg_role = ''assistant'',
                             msg_content = Some ''Hello! How can I help you?'',
                             msg_name = None, msg_tool_calls = None, msg_tool_call_id = None \<rparr>,
              ch_finish_reason = Some ''stop'' \<rparr>]"
  using mistral_adaptResponse_keeps_first_choice_only [of mistral_two_choice_response 1234567890123]
  by (simp add: mistral_two_choice_response_def assistant_message_def mistral_adaptResponse_def)

lemma groq_adaptResponse_defaults_missing_usage:
  "gr_usage g = None \<Longrightarrow>
     resp_usage (groq_adaptResponse g) =
       \<lparr> prompt_tokens = 0, completion_tokens = 0, total_tokens = 0 \<rparr>"
  by (simp add: groq_adaptResponse_def zero_usage_def)


section \<open>Properties of the streaming wrappers\<close>


lemma mistral_next_Suspended_Yield:
  "mistral_stream_next client_chatStream clock ids (Suspended_Yield sid evs failure) w =
     mistral_stream_loop clock sid evs failure w"
  by (simp add: mistral_stream_next_def)

lemma mistral_start_resolved:
  assumes "client_chatStream (mistral_adaptRequest request) (w_heap w) = (Inr (NativeStream evs failure), h)"
  shows "mistral_stream_next client_chatStream clock ids (Suspended_Start request options) w =
           mistral_stream_next client_chatStream clock ids
             (Suspended_Yield (ids (w_id_calls w)) evs failure)
             ((if has_signal options then addEventListener_abort else id)
                (w\<lparr>w_heap := h,
                   w_sdk_calls := w_sdk_calls w @ [(''chatStream'', mistral_adaptRequest request)],
                   w_id_calls := Suc (w_id_calls w)\<rparr>))"
  using assms by (simp add: mistral_stream_next_def call_sdk_def generateId_def)

lemma mistral_start_rejected:
  assumes "client_chatStream (mistral_adaptRequest request) (w_heap w) = (Inl error, h)"
  shows "mistral_stream_next client_chatStream clock ids (Suspended_Start request options) w =
           mistral_stream_catch error
             (w\<lparr>w_heap := h,
                w_sdk_calls := w_sdk_calls w @ [(''chatStream'', mistral_adaptRequest request)]\<rparr>)"
  using assms by (simp add: mistral_stream_next_def call_sdk_def)

lemma mistral_stream_catch_eq:
  "mistral_stream_catch error w =
     (Threw (Ref (length (w_heap w))), Completed,
      w\<lparr>w_heap := w_heap w @
           [AISuiteErrorObject
              (''Mistral streaming error: '' @
                 (if instanceof_Error (w_heap w) error then error_message (w_heap w) error
                  else ''Unknown error''))
              ''mistral'' ''STREAMING_ERROR'']\<rparr>)"
  by (simp add: mistral_stream_catch_def new_AISuiteError_def mistral_name_def)



lemma groq_next_Suspended_Yield:
  "groq_stream_next client_create clock ids (Suspended_Yield sid evs failure) w =
     groq_stream_loop clock sid evs failure w"
  by (simp add: groq_stream_next_def)

lemma groq_start_resolved:
  assumes "client_create (groq_adaptRequest request) (w_heap w) =
             (Inr (GroqStream (NativeStream evs failure)), h)"
  shows "groq_stream_next client_create clock ids (Suspended_Start request options) w =
           groq_stream_next client_create clock ids
             (Suspended_Yield (ids (w_id_calls w)) evs failure)
             ((if has_signal options then addEventListener_abort else id)
                (w\<lparr>w_heap := h,
                   w_sdk_calls := w_sdk_calls w @
                     [(''chat.completions.create'', groq_adaptRequest request)],
                   w_id_calls := Suc (w_id_calls w)\<rparr>))"
  using assms by (simp add: groq_stream_next_def call_sdk_def generateId_def)


lemma groq_start_rejected:
  assumes "client_create (groq_adaptRequest request) (w_heap w) = (Inl error, h)"
  shows "groq_stream_next client_create clock ids (Suspended_Start request options) w =
           groq_stream_catch error
             (w\<lparr>w_heap := h,
                w_sdk_calls := w_sdk_calls w @
                  [(''chat.completions.create'', groq_adaptRequest request)]\<rparr>)"
  using assms by (simp add: groq_stream_next_def call_sdk_def)

lemma groq_stream_catch_eq:
  "groq_stream_catch error w =
     (Threw (Ref (length (w_heap w))), Completed,
      w\<lparr>w_heap := w_heap w @
           [AISuiteErrorObject
              (''Groq streaming error: '' @
                 (if instanceof_Error (w_heap w) error then error_message (w_heap w) error
                  else ''Unknown error''))
              ''groq'' ''STREAMING_ERROR'']\<rparr>)"
  by (simp add: groq_stream_catch_def new_AISuiteError_def groq_name_def)



lemma mistral_stream_throw_is_STREAMING_ERROR:
  assumes "mistral_stream_next client_chatStream clock ids g w = (Threw e, g1, w1)"
  shows "\<exists>h msg. w_heap w1 =
                    h @ [AISuiteErrorObject (''Mistral streaming error: '' @ msg) ''mistral''
                           ''STREAMING_ERROR'']
                \<and> e = Ref (length h)"
proof -
  have loop: "\<exists>h msg. w_heap w1 =
                    h @ [AISuiteErrorObject (''Mistral streaming error: '' @ msg) ''mistral''
                           ''STREAMING_ERROR'']
                \<and> e = Ref (length h)"
    if "mistral_stream_loop clock sid evs failure v = (Threw e, g1, w1)" for sid evs failure v
    using that
    by (auto simp: mistral_stream_loop_def mistral_stream_catch_eq Date_now_def new_TypeError_def
        split: list.splits option.splits sum.splits)
  show ?thesis
  proof (cases g)
    case (Suspended_Start request options)
    obtain res h where sdk: "client_chatStream (mistral_adaptRequest request) (w_heap w) = (res, h)"
      by (cases "client_chatStream (mistral_adaptRequest request) (w_heap w)")
    show ?thesis
    proof (cases res)
      case (Inl error)
      with sdk assms Suspended_Start show ?thesis
        by (auto simp: mistral_start_rejected mistral_stream_catch_eq)
    next
      case (Inr stream)
      obtain evs failure where "stream = NativeStream evs failure" by (cases stream)
      with sdk Inr assms Suspended_Start
      have "\<exists>v. mistral_stream_loop clock (ids (w_id_calls w)) evs failure v = (Threw e, g1, w1)"
        by (auto simp: mistral_start_resolved mistral_next_Suspended_Yield)
      then show ?thesis using loop by blast
    qed
  next
    case (Suspended_Yield sid evs failure)
    with assms have "mistral_stream_loop clock sid evs failure w = (Threw e, g1, w1)"
      by (simp add: mistral_next_Suspended_Yield)
    then show ?thesis by (rule loop)
  next
    case Completed
    with assms show ?thesis by (simp add: mistral_stream_next_def)
  qed
qed

lemma groq_stream_throw_is_STREAMING_ERROR:
  assumes "groq_stream_next client_create clock ids g w = (Threw e, g1, w1)"
  shows "\<exists>h msg. w_heap w1 =
                    h @ [AISuiteErrorObject (''Groq streaming error: '' @ msg) ''groq''
                           ''STREAMING_ERROR'']
                \<and> e = Ref (length h)"
proof -
  have loop: "\<exists>h msg. w_heap w1 =
                    h @ [AISuiteErrorObject (''Groq streaming error: '' @ msg) ''groq''
                           ''STREAMING_ERROR'']
                \<and> e = Ref (length h)"
    if "groq_stream_loop clock sid evs failure v = (Threw e, g1, w1)" for sid evs failure v
    using that
    by (auto simp: groq_stream_loop_def groq_stream_catch_eq Date_now_def
        split: list.splits option.splits)
  show ?thesis
  proof (cases g)
    case (Suspended_Start request options)
    obtain res h where sdk: "client_create (groq_adaptRequest request) (w_heap w) = (res, h)"
      by (cases "client_create (groq_adaptRequest request) (w_heap w)")
    show ?thesis
    proof (cases res)
      case (Inl error)
      with sdk assms Suspended_Start show ?thesis
        by (auto simp: groq_start_rejected groq_stream_catch_eq)
    next
      case (Inr result)
      show ?thesis
      proof (cases result)
        case (GroqCompletion c)
        with sdk Inr assms Suspended_Start show ?thesis
          by (cases "has_signal options")
             (auto simp: groq_stream_next_def call_sdk_def generateId_def groq_stream_catch_eq
                new_TypeError_def Let_def)
      next
        case (GroqStream stream)
        obtain evs failure where "stream = NativeStream evs failure" by (cases stream)
        with sdk Inr GroqStream assms Suspended_Start
        have "\<exists>v. groq_stream_loop clock (ids (w_id_calls w)) evs failure v = (Threw e, g1, w1)"
          by (auto simp: groq_start_resolved groq_next_Suspended_Yield)
        then show ?thesis using loop by blast
      qed
    qed
  next
    case (Suspended_Yield sid evs failure)
    with assms have "groq_stream_loop clock sid evs failure w = (Threw e, g1, w1)"
      by (simp add: groq_next_Suspended_Yield)
    then show ?thesis by (rule loop)
  next
    case Completed
    with assms show ?thesis by (simp add: groq_stream_next_def)
  qed
qed

lemma mistral_midstream_canonical:
  assumes "deref (w_heap w) error = Some (AISuiteErrorObject m p c)"
  shows "mistral_stream_next client_chatStream clock ids (Suspended_Yield sid [] (Some error)) w =
      (Threw (Ref (length (w_heap w))), Completed,
       w\<lparr>w_heap := w_heap w @ [AISuiteErrorObject (''Mistral streaming error: '' @ m) ''mistral''
                          ''STREAMING_ERROR'']\<rparr>)"
  using assms
  by (simp add: mistral_next_Suspended_Yield mistral_stream_loop_def mistral_stream_catch_eq
        instanceof_Error_def error_message_def)

lemma groq_midstream_canonical:
  assumes "deref (w_heap v) error = Some (AISuiteErrorObject m p c)"
  shows "groq_stream_next client_create clock ids (Suspended_Yield sid [] (Some error)) v =
      (Threw (Ref (length (w_heap v))), Completed,
       v\<lparr>w_heap := w_heap v @ [AISuiteErrorObject (''Groq streaming error: '' @ m) ''groq''
                          ''STREAMING_ERROR'']\<rparr>)"
  using assms
  by (simp add: groq_next_Suspended_Yield groq_stream_loop_def groq_stream_catch_eq
        instanceof_Error_def error_message_def)

lemma deref_Some_not_fresh: "deref h error = Some obj \<Longrightarrow> Ref (length h) \<noteq> error"
  by (auto simp: deref_def split: thrown.splits if_splits)






lemmas run_defs =
  mistral_stream_next_def mistral_stream_loop_def mistral_stream_catch_def
  groq_stream_next_def groq_stream_loop_def groq_stream_catch_def
  mistral_streamChatCompletion_def groq_streamChatCompletion_def
  new_AISuiteError_def new_TypeError_def call_sdk_def Date_now_def generateId_def
  addEventListener_abort_def has_signal_def mistral_adaptStreamResponse_def
  groq_adaptStreamResponse_def resolving_def rejecting_def world_with_def
  mistral_hello_events_def groq_hello_events_def delta_choice_def delta_contents_def
  concat_content_def mistral_name_def groq_name_def






text \<open>
  C2, as the claim states it ("for both operations"), is false for
  \<^verbatim>\<open>streamChatCompletion\<close>: when the vendor's streaming call rejects with a canonical
  error (object 0 of the heap, code \<^verbatim>\<open>CUSTOM_ERROR\<close>), Mistral's stream throws another,
  newly created object, of kind \<^verbatim>\<open>STREAMING_ERROR\<close>.
\<close>

theorem mistral_stream_rewraps_canonical_error:
  "instanceof_AISuiteError [custom_error] (Ref 0)
   \<and> mistral_stream_next (rejecting (Ref 0)) (\<lambda>_. 0) (\<lambda>_. ''chatcmpl-abc123xyz'')
        (mistral_streamChatCompletion (hello_request ''mistral-large'' None) None)
        (world_with [custom_error]) =
      (Threw (Ref 1), Completed,
       \<lparr> w_heap = [custom_error,
                   AISuiteErrorObject ''Mistral streaming error: Custom error'' ''mistral''
                     ''STREAMING_ERROR''],
         w_sdk_calls = [(''chatStream'', mistral_adaptRequest (hello_request ''mistral-large'' None))],
         w_clock_reads = 0, w_id_calls = 0, w_abort_listeners = 0 \<rparr>)
   \<and> Ref 1 \<noteq> Ref 0"
  by (simp add: run_defs custom_error_def instanceof_AISuiteError_def instanceof_Error_def
      error_message_def deref_def)

text \<open>
  C2, amended: \<^verbatim>\<open>chatCompletion\<close> of each wrapper of the sources rethrows a canonical
  \<^verbatim>\<open>AISuiteError\<close> thrown by the vendor call as the identical object (the same
  reference, in the heap the vendor call left: nothing is allocated and the object is
  untouched), never wrapped as \<^verbatim>\<open>API_ERROR\<close>.  \<^verbatim>\<open>streamChatCompletion\<close> has no
  such pass-through: a canonical error thrown by the vendor's streaming call, or by the
  native stream after the chunks already yielded, surfaces as a newly created
  \<^verbatim>\<open>STREAMING_ERROR\<close> whose message is the vendor's streaming prefix followed by the
  original message; and whatever a pull of the stream throws, at any point, is such a
  newly created \<^verbatim>\<open>STREAMING_ERROR\<close> object.
\<close>

theorem canonical_error_rethrown_by_chatCompletion_only:
  "(req_stream request \<noteq> Some True \<and> instanceof_AISuiteError h error
      \<and> client_chat (mistral_adaptRequest request) (w_heap w) = (Inl error, h) \<longrightarrow>
    mistral_chatCompletion client_chat clock request options w =
      (Inl error,
       w\<lparr>w_heap := h,
         w_sdk_calls := w_sdk_calls w @ [(''chat'', mistral_adaptRequest request)]\<rparr>))
   \<and> (req_stream request \<noteq> Some True \<and> instanceof_AISuiteError h error
      \<and> client_create (groq_adaptRequest request) (w_heap v) = (Inl error, h) \<longrightarrow>
    groq_chatCompletion client_create request options v =
      (Inl error,
       v\<lparr>w_heap := h,
         w_sdk_calls := w_sdk_calls v @
           [(''chat.completions.create'', groq_adaptRequest request)]\<rparr>))
   \<and> (deref h error = Some (AISuiteErrorObject m p c)
      \<and> client_chatStream (mistral_adaptRequest request) (w_heap w) = (Inl error, h) \<longrightarrow>
    mistral_stream_next client_chatStream clock ids
        (mistral_streamChatCompletion request options) w =
      (Threw (Ref (length h)), Completed,
       w\<lparr>w_heap := h @ [AISuiteErrorObject (''Mistral streaming error: '' @ m) ''mistral''
                          ''STREAMING_ERROR''],
         w_sdk_calls := w_sdk_calls w @ [(''chatStream'', mistral_adaptRequest request)]\<rparr>)
    \<and> Ref (length h) \<noteq> error)
   \<and> (deref h error = Some (AISuiteErrorObject m p c)
      \<and> client_create (groq_adaptRequest request) (w_heap v) = (Inl error, h) \<longrightarrow>
    groq_stream_next client_create clock ids
        (groq_streamChatCompletion request options) v =
      (Threw (Ref (length h)), Completed,
       v\<lparr>w_heap := h @ [AISuiteErrorObject (''Groq streaming error: '' @ m) ''groq''
                          ''STREAMING_ERROR''],
         w_sdk_calls := w_sdk_calls v @
           [(''chat.completions.create'', groq_adaptRequest request)]\<rparr>)
    \<and> Ref (length h) \<noteq> error)
   \<and> (deref (w_heap w) error = Some (AISuiteErrorObject m p c) \<longrightarrow>
    mistral_stream_next client_chatStream clock ids (Suspended_Yield sid [] (Some error)) w =
      (Threw (Ref (length (w_heap w))), Completed,
       w\<lparr>w_heap := w_heap w @ [AISuiteErrorObject (''Mistral streaming error: '' @ m)
                                  ''mistral'' ''STREAMING_ERROR'']\<rparr>)
    \<and> Ref (length (w_heap w)) \<noteq> error)
   \<and> (deref (w_heap v) error = Some (AISuiteErrorObject m p c) \<longrightarrow>
    groq_stream_next client_create clock ids (Suspended_Yield sid [] (Some error)) v =
      (Threw (Ref (length (w_heap v))), Completed,
       v\<lparr>w_heap := w_heap v @ [AISuiteErrorObject (''Groq streaming error: '' @ m)
                                  ''groq'' ''STREAMING_ERROR'']\<rparr>)
    \<and> Ref (length (w_heap v)) \<noteq> error)
   \<and> (mistral_stream_next client_chatStream clock ids g w = (Threw e, g1, w1) \<longrightarrow>
    (\<exists>h0 msg. w_heap w1 =
         h0 @ [AISuiteErrorObject (''Mistral streaming error: '' @ msg) ''mistral''
                 ''STREAMING_ERROR'']
       \<and> e = Ref (length h0)))
   \<and> (groq_stream_next client_create clock ids gg v = (Threw e, gg1, v1) \<longrightarrow>
    (\<exists>h0 msg. w_heap v1 =
         h0 @ [AISuiteErrorObject (''Groq streaming error: '' @ msg) ''groq''
                 ''STREAMING_ERROR'']
       \<and> e = Ref (length h0)))"
proof -
  have chat_m: "mistral_chatCompletion client_chat clock request options w =
      (Inl error,
       w\<lparr>w_heap := h,
         w_sdk_calls := w_sdk_calls w @ [(''chat'', mistral_adaptRequest request)]\<rparr>)"
    if "req_stream request \<noteq> Some True \<and> instanceof_AISuiteError h error
      \<and> client_chat (mistral_adaptRequest request) (w_heap w) = (Inl error, h)"
    using that by (simp add: chat_defs)
  have chat_g: "groq_chatCompletion client_create request options v =
      (Inl error,
       v\<lparr>w_heap := h,
         w_sdk_calls := w_sdk_calls v @
           [(''chat.completions.create'', groq_adaptRequest request)]\<rparr>)"
    if "req_stream request \<noteq> Some True \<and> instanceof_AISuiteError h error
      \<and> client_create (groq_adaptRequest request) (w_heap v) = (Inl error, h)"
    using that by (simp add: chat_defs)
  have setup_m: "mistral_stream_next client_chatStream clock ids
        (mistral_streamChatCompletion request options) w =
      (Threw (Ref (length h)), Completed,
       w\<lparr>w_heap := h @ [AISuiteErrorObject (''Mistral streaming error: '' @ m) ''mistral''
                          ''STREAMING_ERROR''],
         w_sdk_calls := w_sdk_calls w @ [(''chatStream'', mistral_adaptRequest request)]\<rparr>)
    \<and> Ref (length h) \<noteq> error"
    if "deref h error = Some (AISuiteErrorObject m p c)
      \<and> client_chatStream (mistral_adaptRequest request) (w_heap w) = (Inl error, h)"
    using that
    by (simp add: mistral_streamChatCompletion_def mistral_start_rejected mistral_stream_catch_eq
        instanceof_Error_def error_message_def deref_Some_not_fresh)
  have setup_g: "groq_stream_next client_create clock ids
        (groq_streamChatCompletion request options) v =
      (Threw (Ref (length h)), Completed,
       v\<lparr>w_heap := h @ [AISuiteErrorObject (''Groq streaming error: '' @ m) ''groq''
                          ''STREAMING_ERROR''],
         w_sdk_calls := w_sdk_calls v @
           [(''chat.completions.create'', groq_adaptRequest request)]\<rparr>)
    \<and> Ref (length h) \<noteq> error"
    if "deref h error = Some (AISuiteErrorObject m p c)
      \<and> client_create (groq_adaptRequest request) (w_heap v) = (Inl error, h)"
    using that
    by (simp add: groq_streamChatCompletion_def groq_start_rejected groq_stream_catch_eq
        instanceof_Error_def error_message_def deref_Some_not_fresh)
  have mid_m: "mistral_stream_next client_chatStream clock ids
        (Suspended_Yield sid [] (Some error)) w =
      (Threw (Ref (length (w_heap w))), Completed,
       w\<lparr>w_heap := w_heap w @ [AISuiteErrorObject (''Mistral streaming error: '' @ m)
                                  ''mistral'' ''STREAMING_ERROR'']\<rparr>)
    \<and> Ref (length (w_heap w)) \<noteq> error"
    if "deref (w_heap w) error = Some (AISuiteErrorObject m p c)"
    using that by (simp add: mistral_midstream_canonical deref_Some_not_fresh)
  have mid_g: "groq_stream_next client_create clock ids
        (Suspended_Yield sid [] (Some error)) v =
      (Threw (Ref (length (w_heap v))), Completed,
       v\<lparr>w_heap := w_heap v @ [AISuiteErrorObject (''Groq streaming error: '' @ m)
                                  ''groq'' ''STREAMING_ERROR'']\<rparr>)
    \<and> Ref (length (w_heap v)) \<noteq> error"
    if "deref (w_heap v) error = Some (AISuiteErrorObject m p c)"
    using that by (simp add: groq_midstream_canonical deref_Some_not_fresh)
  from chat_m chat_g setup_m setup_g mid_m mid_g
    mistral_stream_throw_is_STREAMING_ERROR [of client_chatStream clock ids g w e g1 w1]
    groq_stream_throw_is_STREAMING_ERROR [of client_create clock ids gg v e gg1 v1]
  show ?thesis by blast
qed

theorem canonical_error_rethrown_witness:
  "instanceof_AISuiteError [custom_error] (Ref 0)
   \<and> mistral_chatCompletion (rejecting (Ref 0)) (\<lambda>_. 0) (hello_request ''mistral-large'' None)
        None (world_with [custom_error]) =
      (Inl (Ref 0),
       \<lparr> w_heap = [custom_error],
         w_sdk_calls = [(''chat'', mistral_adaptRequest (hello_request ''mistral-large'' None))],
         w_clock_reads = 0, w_id_calls = 0, w_abort_listeners = 0 \<rparr>)
   \<and> groq_chatCompletion (rejecting (Ref 0)) (hello_request ''llama3-8b-8192'' None)
        None (world_with [custom_error]) =
      (Inl (Ref 0),
       \<lparr> w_heap = [custom_error],
         w_sdk_calls = [(''chat.completions.create'',
                         groq_adaptRequest (hello_request ''llama3-8b-8192'' None))],
         w_clock_reads = 0, w_id_calls = 0, w_abort_listeners = 0 \<rparr>)
   \<and> fst (groq_stream_next (rejecting (Ref 0)) (\<lambda>_. 0) (\<lambda>_. ''chatcmpl-abc123xyz'')
        (groq_streamChatCompletion (hello_request ''llama3-8b-8192'' (Some True)) None)
        (world_with [custom_error])) = Threw (Ref 1)
   \<and> mistral_stream_next (rejecting (Ref 0)) (\<lambda>_. 0) (\<lambda>_. ''chatcmpl-abc123xyz'')
        (Suspended_Yield ''chatcmpl-abc123xyz'' [] (Some (Ref 0))) (world_with [custom_error]) =
      (Threw (Ref 1), Completed,
       world_with [custom_error,
                   AISuiteErrorObject ''Mistral streaming error: Custom error'' ''mistral''
                     ''STREAMING_ERROR''])
   \<and> groq_stream_next (rejecting (Ref 0)) (\<lambda>_. 0) (\<lambda>_. ''chatcmpl-abc123xyz'')
        (Suspended_Yield ''chatcmpl-abc123xyz'' [] (Some (Ref 0))) (world_with [custom_error]) =
      (Threw (Ref 1), Completed,
       world_with [custom_error,
                   AISuiteErrorObject ''Groq streaming error: Custom error'' ''groq''
                     ''STREAMING_ERROR''])
   \<and> fst (consume
        (mistral_stream_next
           (resolving (NativeStream mistral_hello_events (Some (Primitive ''connection lost''))))
           (\<lambda>_. 0) (\<lambda>_. ''chatcmpl-abc123xyz''))
        3 (mistral_streamChatCompletion (hello_request ''mistral-large'' None) None)
        (world_with [])) =
       [Yielded \<lparr> chunk_id = ''chatcmpl-abc123xyz'', chunk_object = ''chat.completion.chunk'',
                  chunk_created = 0, chunk_model = ''mistral-large'',
                  chunk_choices = [\<lparr> cc_index = 0,
                      cc_delta = \<lparr> d_role = Some ''assistant'', d_content = Some ''Hello'',
                                   d_tool_calls = None \<rparr>,
                      cc_finish_reason = None \<rparr>] \<rparr>,
        Yielded \<lparr> chunk_id = ''chatcmpl-abc123xyz'', chunk_object = ''chat.completion.chunk'',
                  chunk_created = 0, chunk_model = ''mistral-large'',
                  chunk_choices = [\<lparr> cc_index = 0,
                      cc_delta = \<lparr> d_role = Some ''assistant'',
                                   d_content = Some ''! How can I help?'',
                                   d_tool_calls = None \<rparr>,
                      cc_finish_reason = Some ''stop'' \<rparr>] \<rparr>,
        Threw (Ref 0)]"
  using canonical_error_rethrown_by_chatCompletion_only
      [where request = "hello_request ''mistral-large'' None" and h = "[custom_error]"
      and error = "Ref 0" and client_chat = "rejecting (Ref 0)" and w = "world_with [custom_error]"
      and clock = "\<lambda>_. 0" and options = None
      and client_chatStream = "rejecting (Ref 0)" and ids = "\<lambda>_. ''chatcmpl-abc123xyz''"
      and sid = "''chatcmpl-abc123xyz''" and m = "''Custom error''" and p = "''mistral''"
      and c = "''CUSTOM_ERROR''"
      and g = "Suspended_Yield ''chatcmpl-abc123xyz'' [] (Some (Ref 0))" and e = "Ref 1"
      and ?g1.0 = Completed
      and ?w1.0 = "world_with [custom_error,
                   AISuiteErrorObject ''Mistral streaming error: Custom error'' ''mistral''
                     ''STREAMING_ERROR'']"]
    canonical_error_rethrown_by_chatCompletion_only
      [where request = "hello_request ''llama3-8b-8192'' None" and h = "[custom_error]"
      and error = "Ref 0" and client_create = "rejecting (Ref 0)"
      and v = "world_with [custom_error]" and options = None
      and clock = "\<lambda>_. 0" and ids = "\<lambda>_. ''chatcmpl-abc123xyz''"
      and sid = "''chatcmpl-abc123xyz''" and m = "''Custom error''" and p = "''mistral''"
      and c = "''CUSTOM_ERROR''"
      and gg = "Suspended_Yield ''chatcmpl-abc123xyz'' [] (Some (Ref 0))" and e = "Ref 1"
      and ?gg1.0 = Completed
      and ?v1.0 = "world_with [custom_error,
                   AISuiteErrorObject ''Groq streaming error: Custom error'' ''groq''
                     ''STREAMING_ERROR'']"]
    canonical_error_rethrown_by_chatCompletion_only
      [where request = "hello_request ''llama3-8b-8192'' (Some True)" and h = "[custom_error]"
      and error = "Ref 0" and client_create = "rejecting (Ref 0)"
      and v = "world_with [custom_error]"
      and options = None and m = "''Custom error''" and p = "''mistral''"
      and c = "''CUSTOM_ERROR''"
      and clock = "\<lambda>_. 0" and ids = "\<lambda>_. ''chatcmpl-abc123xyz''"]
  by (simp add: run_defs hello_request_def custom_error_def chat_defs
      instanceof_AISuiteError_def instanceof_Error_def error_message_def deref_def
      eval_nat_numeral)

section \<open>Properties of the dispatcher\<close>

lemma split_first_at_first_separator:
  "sep \<notin> set before \<Longrightarrow> split_first sep (before @ sep # after) = Some (before, after)"
  by (induction before) auto

text \<open>
  C3: \<^verbatim>\<open>chat.completions.create\<close> splits the model on the first separator only.  For
  a model \<open>vendorKey:vendorModelId\<close> whose \<open>vendorKey\<close> holds no \<^verbatim>\<open>:\<close> and is
  registered, the split is \<open>(vendorKey, vendorModelId)\<close>, whatever further \<^verbatim>\<open>:\<close>
  the model id holds, and exactly one call goes to the provider registered under
  \<open>vendorKey\<close> (the streaming operation when \<^verbatim>\<open>request.stream\<close> is true, the
  non-streaming one otherwise), with the request whose model is rewritten to
  \<open>vendorModelId\<close>.  The witness is \<^verbatim>\<open>openai:gpt-4:vision\<close>.
\<close>

theorem create_splits_on_first_separator:
  assumes "CHR '':'' \<notin> set vendorKey"
      and "map_of providers vendorKey = Some p"
  shows "split_first (CHR '':'') (vendorKey @ '':'' @ vendorModelId) = Some (vendorKey, vendorModelId)
       \<and> create providers (request\<lparr>req_model := vendorKey @ '':'' @ vendorModelId\<rparr>) options
           (calls, s) =
         (let forwarded = request\<lparr>req_model := vendorModelId\<rparr>
          in if req_stream request = Some True then
               Some (Inr (ChunkStream (p_streamChatCompletion p forwarded options)),
                     calls @ [(vendorKey, StreamChatCompletionCall forwarded options)], s)
             else
               Some (map_sum ProviderRejected Completion
                       (fst (p_chatCompletion p forwarded options s)),
                     calls @ [(vendorKey, ChatCompletionCall forwarded options)],
                     snd (p_chatCompletion p forwarded options s)))"
  using assms
  by (auto simp: create_def split_first_at_first_separator Let_def
      split: prod.splits sum.splits)

theorem create_splits_on_first_separator_witness:
  "CHR '':'' \<notin> set ''openai''
   \<and> map_of [(''openai'', mock_provider)] ''openai'' = Some mock_provider
   \<and> split_first (CHR '':'') ''openai:gpt-4:vision'' = Some (''openai'', ''gpt-4:vision'')
   \<and> create [(''openai'', mock_provider)] (hello_request ''openai:gpt-4:vision'' None) None
        ([], ()) =
      Some (Inr (Completion (mock_response (hello_request ''gpt-4:vision'' None))),
            [(''openai'', ChatCompletionCall (hello_request ''gpt-4:vision'' None) None)], ())"
  using create_splits_on_first_separator [where vendorKey = "''openai''" and vendorModelId = "''gpt-4:vision''"
      and providers = "[(''openai'', mock_provider)]" and p = mock_provider
      and request = "hello_request ''openai:gpt-4:vision'' None" and options = None
      and calls = "[]" and s = "()"]
  by (simp add: hello_request_def mock_provider_def Let_def)

text \<open>
  C4: when the vendor prefix of the request's model names no registered provider,
  \<^verbatim>\<open>chat.completions.create\<close> fails with \<^verbatim>\<open>ProviderNotConfigured\<close> naming that
  vendor; the dispatch log and the providers' state are what they were, so no
  provider operation was invoked.
\<close>

theorem create_unregistered_vendor_fails:
  assumes "split_first (CHR '':'') (req_model request) = Some (vendorKey, vendorModelId)"
      and "map_of providers vendorKey = None"
  shows "create providers request options (calls, s) =
           Some (Inl (ProviderNotConfigured vendorKey), calls, s)"
  using assms by (simp add: create_def)

theorem create_unregistered_vendor_witness:
  "split_first (CHR '':'') (req_model (hello_request ''unknown:model'' None)) =
     Some (''unknown'', ''model'')
   \<and> map_of [(''openai'', mock_provider), (''groq'', mock_provider)] ''unknown'' = None
   \<and> create [(''openai'', mock_provider), (''groq'', mock_provider)]
        (hello_request ''unknown:model'' None) None ([], ()) =
      Some (Inl (ProviderNotConfigured ''unknown''), [], ())"
  using create_unregistered_vendor_fails [where request = "hello_request ''unknown:model'' None" and vendorKey = "''unknown''"
      and vendorModelId = "''model''"
      and providers = "[(''openai'', mock_provider), (''groq'', mock_provider)]"
      and options = None and calls = "[]" and s = "()"]
  by (simp add: hello_request_def)

end
